theory Spec2Isabelle
  imports Main
begin

section \<open>Errors and optional arguments\<close>

text \<open>
  The library throws two kinds of JavaScript exception: \<^verbatim>\<open>new Error(msg)\<close> and
  \<^verbatim>\<open>new ReferenceError('...')\<close>. An exception is a value here; each carries its message.
  A call that may throw has the result type \<open>js_error + 'a\<close>: \<open>Inl e\<close> is
  \<^verbatim>\<open>throw e\<close>, \<open>Inr x\<close> is \<^verbatim>\<open>return x\<close>. A callback supplied by the caller is JavaScript
  code as well, so it has a result of that type too.

  The methods are those of the build whose \<^verbatim>\<open>unwrap\<close> and \<^verbatim>\<open>unwrapErr\<close> take the optional
  message, as the type declarations have it (\<^verbatim>\<open>unwrap(msg?: string)\<close>). The ES-module
  build under \<^verbatim>\<open>dist\<close> is an older one in which they take no argument; it is the same in
  every other method.
\<close>

datatype js_error = Error string | ReferenceError string

abbreviation throws :: "js_error + 'a \<Rightarrow> bool" where
  "throws c \<equiv> isl c"

text \<open>
  The optional parameter \<^verbatim>\<open>msg?: string\<close> is a \<open>string option\<close>: \<open>None\<close> is an
  omitted argument (\<^verbatim>\<open>undefined\<close>). The source tests it with \<^verbatim>\<open>if (msg)\<close>, which is
  JavaScript's conversion to a boolean: \<^verbatim>\<open>undefined\<close> and the empty string are falsy,
  every other string is truthy.
\<close>

fun ToBoolean :: "string option \<Rightarrow> bool" where
  "ToBoolean None = False"
| "ToBoolean (Some s) = (s \<noteq> [])"

text \<open>\<^verbatim>\<open>new Error(msg)\<close>: the message of an error built from \<^verbatim>\<open>undefined\<close> is empty.\<close>

fun new_Error :: "string option \<Rightarrow> js_error" where
  "new_Error None = Error []"
| "new_Error (Some s) = Error s"

section \<open>Option\<close>

text \<open>
  The classes \<^verbatim>\<open>SomeImpl\<close> (one field, \<^verbatim>\<open>val\<close>) and \<^verbatim>\<open>NoneImpl\<close> (no field) are the
  two constructors of one datatype; a method of the interface is one function with an
  equation for each class that implements it.
\<close>

datatype 'a Option = SomeImpl 'a | NoneImpl

text \<open>\<^verbatim>\<open>function Some(val) { return new SomeImpl(val); }\<close>\<close>

definition Some_opt :: "'a \<Rightarrow> 'a Option" where
  "Some_opt v = SomeImpl v"

text \<open>\<^verbatim>\<open>const None = new NoneImpl();\<close>\<close>

definition None_opt :: "'a Option" where
  "None_opt = NoneImpl"

fun Option_isSome :: "'a Option \<Rightarrow> bool" where
  "Option_isSome (SomeImpl v) = True"
| "Option_isSome NoneImpl = False"

fun Option_isNone :: "'a Option \<Rightarrow> bool" where
  "Option_isNone (SomeImpl v) = False"
| "Option_isNone NoneImpl = True"

text \<open>
  The argument of \<^verbatim>\<open>match\<close> is an object with the properties \<^verbatim>\<open>some\<close> and \<^verbatim>\<open>none\<close>.
  The declared type of \<^verbatim>\<open>none\<close> is \<^verbatim>\<open>(() => B) | B\<close>, and \<^verbatim>\<open>NoneImpl.match\<close> tells the
  two apart at run time with \<^verbatim>\<open>typeof none === 'function'\<close>. So the value of \<^verbatim>\<open>none\<close> is
  either \<open>Callable f\<close>, a value whose \<^verbatim>\<open>typeof\<close> is \<^verbatim>\<open>'function'\<close>, or \<open>Literal d\<close>, any
  other value.
\<close>

datatype 'b none_arm = Callable "unit \<Rightarrow> js_error + 'b" | Literal 'b

record ('a, 'b) Match =
  some :: "'a \<Rightarrow> js_error + 'b"
  none :: "'b none_arm"

fun Option_match :: "'a Option \<Rightarrow> ('a, 'b) Match \<Rightarrow> js_error + 'b" where
  "Option_match (SomeImpl v) fn = some fn v"
| "Option_match NoneImpl fn =
     (case none fn of
        Callable f \<Rightarrow> f ()
      | Literal d \<Rightarrow> Inr d)"

fun Option_map :: "'a Option \<Rightarrow> ('a \<Rightarrow> js_error + 'b) \<Rightarrow> js_error + 'b Option" where
  "Option_map (SomeImpl v) fn =
     (case fn v of Inl e \<Rightarrow> Inl e | Inr u \<Rightarrow> Inr (Some_opt u))"
| "Option_map NoneImpl fn = Inr NoneImpl"

fun Option_andThen :: "'a Option \<Rightarrow> ('a \<Rightarrow> js_error + 'b Option) \<Rightarrow> js_error + 'b Option" where
  "Option_andThen (SomeImpl v) fn = fn v"
| "Option_andThen NoneImpl fn = Inr NoneImpl"

fun Option_or :: "'a Option \<Rightarrow> 'a Option \<Rightarrow> 'a Option" where
  "Option_or (SomeImpl v) optb = SomeImpl v"
| "Option_or NoneImpl optb = optb"

fun Option_and :: "'a Option \<Rightarrow> 'b Option \<Rightarrow> 'b Option" where
  "Option_and (SomeImpl v) optb = optb"
| "Option_and NoneImpl optb = NoneImpl"

fun Option_unwrapOr :: "'a Option \<Rightarrow> 'a \<Rightarrow> 'a" where
  "Option_unwrapOr (SomeImpl v) def = v"
| "Option_unwrapOr NoneImpl def = def"

fun Option_unwrap :: "'a Option \<Rightarrow> string option \<Rightarrow> js_error + 'a" where
  "Option_unwrap (SomeImpl v) msg = Inr v"
| "Option_unwrap NoneImpl msg =
     (if ToBoolean msg then Inl (new_Error msg)
      else Inl (ReferenceError ''Trying to unwrap None.''))"

text \<open>
  \<^verbatim>\<open>OptionExt.ofUndefinable(value)\<close> takes any JavaScript value. The only test it makes
  is \<^verbatim>\<open>value === undefined\<close>, so a value is \<^verbatim>\<open>undefined\<close>, \<^verbatim>\<open>null\<close>, or anything else
  (a boolean, number, string, object or function), which \<open>Val\<close> carries.
\<close>

datatype 'a js_value = Undefined | Null | Val 'a

definition ofUndefinable :: "'a js_value \<Rightarrow> 'a js_value Option" where
  "ofUndefinable value = (if value = Undefined then None_opt else Some_opt value)"

text \<open>The deprecated free functions call the method of their argument.\<close>

definition isSome :: "'a Option \<Rightarrow> bool" where
  "isSome v = Option_isSome v"

definition isNone :: "'a Option \<Rightarrow> bool" where
  "isNone v = Option_isNone v"

section \<open>Either\<close>

datatype ('l, 'r) Either = LeftImpl 'l | RightImpl 'r

text \<open>
  \<^verbatim>\<open>function Left(val) { return new LeftImpl(val); }\<close> and
  \<^verbatim>\<open>function Right(val) { return new RightImpl(val); }\<close>. HOL has constants \<open>Left\<close> and
  \<open>Right\<close> of its own, so the two factories carry a suffix, as \<open>Some_opt\<close> and \<open>None_opt\<close> do.
\<close>

definition Left_either :: "'l \<Rightarrow> ('l, 'r) Either" where
  "Left_either v = LeftImpl v"

definition Right_either :: "'r \<Rightarrow> ('l, 'r) Either" where
  "Right_either v = RightImpl v"

fun Either_isLeft :: "('l, 'r) Either \<Rightarrow> bool" where
  "Either_isLeft (LeftImpl v) = True"
| "Either_isLeft (RightImpl v) = False"

fun Either_isRight :: "('l, 'r) Either \<Rightarrow> bool" where
  "Either_isRight (LeftImpl v) = False"
| "Either_isRight (RightImpl v) = True"

fun Either_left :: "('l, 'r) Either \<Rightarrow> 'l Option" where
  "Either_left (LeftImpl v) = Some_opt v"
| "Either_left (RightImpl v) = None_opt"

fun Either_right :: "('l, 'r) Either \<Rightarrow> 'r Option" where
  "Either_right (LeftImpl v) = None_opt"
| "Either_right (RightImpl v) = Some_opt v"

text \<open>
  \<^verbatim>\<open>unwrap()\<close> returns \<^verbatim>\<open>this.val\<close> in both classes, a value of the union type
  \<^verbatim>\<open>L | R\<close>. HOL has no untagged union, so this one method is typed on an Either
  whose two sides hold values of one type.
\<close>

fun Either_unwrap :: "('a, 'a) Either \<Rightarrow> 'a" where
  "Either_unwrap (LeftImpl v) = v"
| "Either_unwrap (RightImpl v) = v"

fun Either_unwrapLeft :: "('l, 'r) Either \<Rightarrow> js_error + 'l" where
  "Either_unwrapLeft (LeftImpl v) = Inr v"
| "Either_unwrapLeft (RightImpl v) =
     Inl (ReferenceError ''Cannot unwrap Left value of Either.Right'')"

fun Either_unwrapRight :: "('l, 'r) Either \<Rightarrow> js_error + 'r" where
  "Either_unwrapRight (LeftImpl v) =
     Inl (ReferenceError ''Cannot unwrap Right value of Either.Left'')"
| "Either_unwrapRight (RightImpl v) = Inr v"

fun Either_unwrapLeftOr :: "('l, 'r) Either \<Rightarrow> 'l \<Rightarrow> 'l" where
  "Either_unwrapLeftOr (LeftImpl v) other = v"
| "Either_unwrapLeftOr (RightImpl v) other = other"

fun Either_unwrapRightOr :: "('l, 'r) Either \<Rightarrow> 'r \<Rightarrow> 'r" where
  "Either_unwrapRightOr (LeftImpl v) other = other"
| "Either_unwrapRightOr (RightImpl v) other = v"

record ('l, 'r, 'b) EitherMatch =
  left :: "'l \<Rightarrow> js_error + 'b"
  right :: "'r \<Rightarrow> js_error + 'b"

fun Either_match :: "('l, 'r) Either \<Rightarrow> ('l, 'r, 'b) EitherMatch \<Rightarrow> js_error + 'b" where
  "Either_match (LeftImpl v) matchObject = left matchObject v"
| "Either_match (RightImpl v) matchObject = right matchObject v"

fun Either_mapLeft ::
  "('l, 'r) Either \<Rightarrow> ('l \<Rightarrow> js_error + 'u) \<Rightarrow> js_error + ('u, 'r) Either" where
  "Either_mapLeft (LeftImpl v) fn =
     (case fn v of Inl e \<Rightarrow> Inl e | Inr u \<Rightarrow> Inr (Left_either u))"
| "Either_mapLeft (RightImpl v) fn = Inr (Right_either v)"

fun Either_mapRight ::
  "('l, 'r) Either \<Rightarrow> ('r \<Rightarrow> js_error + 'u) \<Rightarrow> js_error + ('l, 'u) Either" where
  "Either_mapRight (LeftImpl v) fn = Inr (Left_either v)"
| "Either_mapRight (RightImpl v) fn =
     (case fn v of Inl e \<Rightarrow> Inl e | Inr u \<Rightarrow> Inr (Right_either u))"

fun Either_leftAndThen ::
  "('l, 'r) Either \<Rightarrow> ('l \<Rightarrow> js_error + ('u, 'r) Either) \<Rightarrow> js_error + ('u, 'r) Either" where
  "Either_leftAndThen (LeftImpl v) fn = fn v"
| "Either_leftAndThen (RightImpl v) fn = Inr (Right_either v)"

fun Either_rightAndThen ::
  "('l, 'r) Either \<Rightarrow> ('r \<Rightarrow> js_error + ('l, 'u) Either) \<Rightarrow> js_error + ('l, 'u) Either" where
  "Either_rightAndThen (LeftImpl v) fn = Inr (Left_either v)"
| "Either_rightAndThen (RightImpl v) fn = fn v"

definition isLeft :: "('l, 'r) Either \<Rightarrow> bool" where
  "isLeft v = Either_isLeft v"

definition isRight :: "('l, 'r) Either \<Rightarrow> bool" where
  "isRight v = Either_isRight v"

section \<open>Result\<close>

datatype ('t, 'e) Result = OkImpl 't | ErrImpl 'e

text \<open>
  \<^verbatim>\<open>function Ok(val) { return new OkImpl(val); }\<close> and
  \<^verbatim>\<open>function Err(val) { return new ErrImpl(val); }\<close>
\<close>

definition Ok :: "'t \<Rightarrow> ('t, 'e) Result" where
  "Ok v = OkImpl v"

definition Err :: "'e \<Rightarrow> ('t, 'e) Result" where
  "Err v = ErrImpl v"

fun Result_isOk :: "('t, 'e) Result \<Rightarrow> bool" where
  "Result_isOk (OkImpl v) = True"
| "Result_isOk (ErrImpl v) = False"

fun Result_isErr :: "('t, 'e) Result \<Rightarrow> bool" where
  "Result_isErr (OkImpl v) = False"
| "Result_isErr (ErrImpl v) = True"

fun Result_ok :: "('t, 'e) Result \<Rightarrow> 't Option" where
  "Result_ok (OkImpl v) = Some_opt v"
| "Result_ok (ErrImpl v) = None_opt"

fun Result_err :: "('t, 'e) Result \<Rightarrow> 'e Option" where
  "Result_err (OkImpl v) = None_opt"
| "Result_err (ErrImpl v) = Some_opt v"

record ('t, 'e, 'b) ResultMatch =
  ok :: "'t \<Rightarrow> js_error + 'b"
  err :: "'e \<Rightarrow> js_error + 'b"

fun Result_match :: "('t, 'e) Result \<Rightarrow> ('t, 'e, 'b) ResultMatch \<Rightarrow> js_error + 'b" where
  "Result_match (OkImpl v) matchObject = ok matchObject v"
| "Result_match (ErrImpl v) matchObject = err matchObject v"

fun Result_map ::
  "('t, 'e) Result \<Rightarrow> ('t \<Rightarrow> js_error + 'u) \<Rightarrow> js_error + ('u, 'e) Result" where
  "Result_map (OkImpl v) fn =
     (case fn v of Inl e \<Rightarrow> Inl e | Inr u \<Rightarrow> Inr (Ok u))"
| "Result_map (ErrImpl v) fn = Inr (Err v)"

fun Result_mapErr ::
  "('t, 'e) Result \<Rightarrow> ('e \<Rightarrow> js_error + 'u) \<Rightarrow> js_error + ('t, 'u) Result" where
  "Result_mapErr (OkImpl v) fn = Inr (Ok v)"
| "Result_mapErr (ErrImpl v) fn =
     (case fn v of Inl e \<Rightarrow> Inl e | Inr u \<Rightarrow> Inr (Err u))"

fun Result_andThen ::
  "('t, 'e) Result \<Rightarrow> ('t \<Rightarrow> js_error + ('u, 'e) Result) \<Rightarrow> js_error + ('u, 'e) Result" where
  "Result_andThen (OkImpl v) fn = fn v"
| "Result_andThen (ErrImpl v) fn = Inr (Err v)"

fun Result_orElse ::
  "('t, 'e) Result \<Rightarrow> ('e \<Rightarrow> js_error + ('t, 'u) Result) \<Rightarrow> js_error + ('t, 'u) Result" where
  "Result_orElse (OkImpl v) fn = Inr (Ok v)"
| "Result_orElse (ErrImpl v) fn = fn v"

fun Result_unwrap :: "('t, 'e) Result \<Rightarrow> string option \<Rightarrow> js_error + 't" where
  "Result_unwrap (OkImpl v) msg = Inr v"
| "Result_unwrap (ErrImpl v) msg =
     (if ToBoolean msg then Inl (new_Error msg)
      else Inl (ReferenceError ''Cannot unwrap Ok value of Result.Err''))"

fun Result_unwrapErr :: "('t, 'e) Result \<Rightarrow> string option \<Rightarrow> js_error + 'e" where
  "Result_unwrapErr (OkImpl v) msg =
     (if ToBoolean msg then Inl (new_Error msg)
      else Inl (ReferenceError ''Cannot unwrap Err value of Result.Ok''))"
| "Result_unwrapErr (ErrImpl v) msg = Inr v"

fun Result_unwrapOr :: "('t, 'e) Result \<Rightarrow> 't \<Rightarrow> 't" where
  "Result_unwrapOr (OkImpl v) optb = v"
| "Result_unwrapOr (ErrImpl v) optb = optb"

definition isOk :: "('t, 'e) Result \<Rightarrow> bool" where
  "isOk v = Result_isOk v"

definition isErr :: "('t, 'e) Result \<Rightarrow> bool" where
  "isErr v = Result_isErr v"

section \<open>Object identity\<close>

text \<open>
  The datatypes above say what an instance holds, not which instance it is. Where the
  source writes \<^verbatim>\<open>new\<close> or \<^verbatim>\<open>return this\<close> the difference shows under \<^verbatim>\<open>===\<close>, so
  those methods are also given on a heap: a list of instances, an instance's address being
  its index. \<^verbatim>\<open>new\<close> appends an instance and returns its address; no field is ever
  assigned after construction, so nothing else changes a heap. The payloads of one heap
  are values of one type \<open>'a\<close>.
\<close>

type_synonym addr = nat

datatype 'a object =
  OptionObj "'a Option"
| EitherObj "('a, 'a) Either"
| ResultObj "('a, 'a) Result"

type_synonym 'a heap = "'a object list"

definition new :: "'a object \<Rightarrow> 'a heap \<Rightarrow> addr \<times> 'a heap" where
  "new obj h = (length h, h @ [obj])"

definition lookup :: "'a heap \<Rightarrow> addr \<Rightarrow> 'a object option" where
  "lookup h a = (if a < length h then Some (h ! a) else None)"

text \<open>
  The property read \<^verbatim>\<open>this.val\<close>. It is \<open>None\<close> when there is no instance at the address
  or the instance has no field \<^verbatim>\<open>val\<close>: JavaScript would read \<^verbatim>\<open>undefined\<close> there, which is
  not a payload. A method is only ever dispatched to an instance of its own class, where
  the read succeeds.
\<close>

fun object_val :: "'a object \<Rightarrow> 'a option" where
  "object_val (OptionObj (SomeImpl v)) = Some v"
| "object_val (OptionObj NoneImpl) = None"
| "object_val (EitherObj (LeftImpl v)) = Some v"
| "object_val (EitherObj (RightImpl v)) = Some v"
| "object_val (ResultObj (OkImpl v)) = Some v"
| "object_val (ResultObj (ErrImpl v)) = Some v"

definition this_val :: "'a heap \<Rightarrow> addr \<Rightarrow> 'a option" where
  "this_val h this = (case lookup h this of None \<Rightarrow> None | Some obj \<Rightarrow> object_val obj)"

text \<open>
  Loading the module runs \<^verbatim>\<open>const None = new NoneImpl();\<close> on the empty heap: the
  shared instance is the first one allocated.
\<close>

definition None_ref :: addr where
  "None_ref = 0"

definition module_heap :: "'a heap" where
  "module_heap = snd (new (OptionObj NoneImpl) [])"

definition Some_ref :: "'a \<Rightarrow> 'a heap \<Rightarrow> addr \<times> 'a heap" where
  "Some_ref v h = new (OptionObj (SomeImpl v)) h"

definition Left_ref :: "'a \<Rightarrow> 'a heap \<Rightarrow> addr \<times> 'a heap" where
  "Left_ref v h = new (EitherObj (LeftImpl v)) h"

definition Right_ref :: "'a \<Rightarrow> 'a heap \<Rightarrow> addr \<times> 'a heap" where
  "Right_ref v h = new (EitherObj (RightImpl v)) h"

definition Ok_ref :: "'a \<Rightarrow> 'a heap \<Rightarrow> addr \<times> 'a heap" where
  "Ok_ref v h = new (ResultObj (OkImpl v)) h"

definition Err_ref :: "'a \<Rightarrow> 'a heap \<Rightarrow> addr \<times> 'a heap" where
  "Err_ref v h = new (ResultObj (ErrImpl v)) h"

text \<open>
  The methods below are those of one class each. The receiver is the address \<open>this\<close>;
  an Option argument is an address; a callback that the body never calls is of any type.
\<close>

definition NoneImpl_map_ref :: "addr \<Rightarrow> 'f \<Rightarrow> 'a heap \<Rightarrow> addr \<times> 'a heap" where
  "NoneImpl_map_ref this fn h = new (OptionObj NoneImpl) h"

definition NoneImpl_andThen_ref :: "addr \<Rightarrow> 'f \<Rightarrow> 'a heap \<Rightarrow> addr \<times> 'a heap" where
  "NoneImpl_andThen_ref this fn h = new (OptionObj NoneImpl) h"

definition NoneImpl_and_ref :: "addr \<Rightarrow> addr \<Rightarrow> 'a heap \<Rightarrow> addr \<times> 'a heap" where
  "NoneImpl_and_ref this optb h = new (OptionObj NoneImpl) h"

definition SomeImpl_or_ref :: "addr \<Rightarrow> addr \<Rightarrow> 'a heap \<Rightarrow> addr \<times> 'a heap" where
  "SomeImpl_or_ref this optb h = (this, h)"

definition LeftImpl_mapRight_ref :: "addr \<Rightarrow> 'f \<Rightarrow> 'a heap \<Rightarrow> (addr \<times> 'a heap) option" where
  "LeftImpl_mapRight_ref this fn h =
     (case this_val h this of None \<Rightarrow> None | Some v \<Rightarrow> Some (Left_ref v h))"

definition LeftImpl_rightAndThen_ref :: "addr \<Rightarrow> 'f \<Rightarrow> 'a heap \<Rightarrow> (addr \<times> 'a heap) option" where
  "LeftImpl_rightAndThen_ref this fn h =
     (case this_val h this of None \<Rightarrow> None | Some v \<Rightarrow> Some (Left_ref v h))"

definition OkImpl_mapErr_ref :: "addr \<Rightarrow> 'f \<Rightarrow> 'a heap \<Rightarrow> (addr \<times> 'a heap) option" where
  "OkImpl_mapErr_ref this fn h =
     (case this_val h this of None \<Rightarrow> None | Some v \<Rightarrow> Some (Ok_ref v h))"

definition OkImpl_orElse_ref :: "addr \<Rightarrow> 'f \<Rightarrow> 'a heap \<Rightarrow> (addr \<times> 'a heap) option" where
  "OkImpl_orElse_ref this fn h =
     (case this_val h this of None \<Rightarrow> None | Some v \<Rightarrow> Some (Ok_ref v h))"

definition RightImpl_mapLeft_ref :: "addr \<Rightarrow> 'f \<Rightarrow> 'a heap \<Rightarrow> (addr \<times> 'a heap) option" where
  "RightImpl_mapLeft_ref this fn h =
     (case this_val h this of None \<Rightarrow> None | Some v \<Rightarrow> Some (Right_ref v h))"

definition RightImpl_leftAndThen_ref :: "addr \<Rightarrow> 'f \<Rightarrow> 'a heap \<Rightarrow> (addr \<times> 'a heap) option" where
  "RightImpl_leftAndThen_ref this fn h =
     (case this_val h this of None \<Rightarrow> None | Some v \<Rightarrow> Some (Right_ref v h))"

definition ErrImpl_map_ref :: "addr \<Rightarrow> 'f \<Rightarrow> 'a heap \<Rightarrow> (addr \<times> 'a heap) option" where
  "ErrImpl_map_ref this fn h =
     (case this_val h this of None \<Rightarrow> None | Some v \<Rightarrow> Some (Err_ref v h))"

definition ErrImpl_andThen_ref :: "addr \<Rightarrow> 'f \<Rightarrow> 'a heap \<Rightarrow> (addr \<times> 'a heap) option" where
  "ErrImpl_andThen_ref this fn h =
     (case this_val h this of None \<Rightarrow> None | Some v \<Rightarrow> Some (Err_ref v h))"

text \<open>
  The projections on the other side, \<^verbatim>\<open>LeftImpl.right\<close>, \<^verbatim>\<open>RightImpl.left\<close>,
  \<^verbatim>\<open>OkImpl.err\<close> and \<^verbatim>\<open>ErrImpl.ok\<close>, are \<^verbatim>\<open>return None;\<close>: the constant of the module, not
  a \<^verbatim>\<open>new NoneImpl()\<close>. So is the \<^verbatim>\<open>undefined\<close> branch of \<^verbatim>\<open>ofUndefinable\<close>.
\<close>

definition LeftImpl_right_ref :: "addr \<Rightarrow> 'a heap \<Rightarrow> addr \<times> 'a heap" where
  "LeftImpl_right_ref this h = (None_ref, h)"

definition RightImpl_left_ref :: "addr \<Rightarrow> 'a heap \<Rightarrow> addr \<times> 'a heap" where
  "RightImpl_left_ref this h = (None_ref, h)"

definition OkImpl_err_ref :: "addr \<Rightarrow> 'a heap \<Rightarrow> addr \<times> 'a heap" where
  "OkImpl_err_ref this h = (None_ref, h)"

definition ErrImpl_ok_ref :: "addr \<Rightarrow> 'a heap \<Rightarrow> addr \<times> 'a heap" where
  "ErrImpl_ok_ref this h = (None_ref, h)"

definition ofUndefinable_ref :: "'a js_value \<Rightarrow> 'a js_value heap \<Rightarrow> addr \<times> 'a js_value heap" where
  "ofUndefinable_ref value h = (if value = Undefined then (None_ref, h) else Some_ref value h)"




section \<open>Allocation\<close>

lemma lookup_new_fresh: "new obj h = (r, h') \<Longrightarrow> lookup h r = None \<and> lookup h' r = Some obj"
  by (auto simp: new_def lookup_def)

lemma lookup_new_old: "new obj h = (r, h') \<Longrightarrow> lookup h a = Some x \<Longrightarrow> lookup h' a = Some x \<and> a \<noteq> r"
  by (auto simp: new_def lookup_def nth_append split: if_splits)

lemma new_fresh_instance:
  "lookup h a = Some x \<Longrightarrow>
   \<exists>r h'. new obj h = (r, h') \<and> r \<noteq> a \<and> lookup h r = None \<and> lookup h' r = Some obj"
  by (auto simp: new_def lookup_def split: if_splits)

lemma module_loaded: "new (OptionObj NoneImpl) [] = (None_ref, module_heap)"
  by (simp add: new_def None_ref_def module_heap_def)

lemma this_val_lookup: "lookup h a = Some obj \<Longrightarrow> this_val h a = object_val obj"
  by (simp add: this_val_def)

section \<open>The heap methods agree with the value methods\<close>

text \<open>
  Each method on the heap returns the address of an instance whose content is the result
  of the method on values.
\<close>

lemma NoneImpl_refs_agree:
  shows "NoneImpl_map_ref this fn h = (r, h') \<Longrightarrow> Option_map NoneImpl f = Inr opt \<Longrightarrow>
           lookup h' r = Some (OptionObj opt)"
    and "NoneImpl_andThen_ref this fn h = (r, h') \<Longrightarrow> Option_andThen NoneImpl g = Inr opt \<Longrightarrow>
           lookup h' r = Some (OptionObj opt)"
    and "NoneImpl_and_ref this b h = (r, h') \<Longrightarrow>
           lookup h' r = Some (OptionObj (Option_and NoneImpl optb))"
  by (auto simp: NoneImpl_map_ref_def NoneImpl_andThen_ref_def NoneImpl_and_ref_def
      dest: lookup_new_fresh)

lemma SomeImpl_or_ref_agrees:
  assumes "lookup h this = Some (OptionObj (SomeImpl v))"
  shows "SomeImpl_or_ref this b h = (r, h') \<Longrightarrow>
           lookup h' r = Some (OptionObj (Option_or (SomeImpl v) optb))"
  using assms by (simp add: SomeImpl_or_ref_def)

lemma LeftImpl_refs_agree:
  assumes "lookup h this = Some (EitherObj (LeftImpl x))"
  shows "LeftImpl_mapRight_ref this fn h = Some (r, h') \<Longrightarrow> Either_mapRight (LeftImpl x) f = Inr e \<Longrightarrow>
           lookup h' r = Some (EitherObj e)"
    and "LeftImpl_rightAndThen_ref this fn h = Some (r, h') \<Longrightarrow>
           Either_rightAndThen (LeftImpl x) g = Inr e \<Longrightarrow> lookup h' r = Some (EitherObj e)"
  using assms
  by (auto simp: LeftImpl_mapRight_ref_def LeftImpl_rightAndThen_ref_def this_val_lookup
      Left_ref_def Left_either_def dest: lookup_new_fresh)

lemma OkImpl_refs_agree:
  assumes "lookup h this = Some (ResultObj (OkImpl v))"
  shows "OkImpl_mapErr_ref this fn h = Some (r, h') \<Longrightarrow> Result_mapErr (OkImpl v) f = Inr e \<Longrightarrow>
           lookup h' r = Some (ResultObj e)"
    and "OkImpl_orElse_ref this fn h = Some (r, h') \<Longrightarrow>
           Result_orElse (OkImpl v) g = Inr e \<Longrightarrow> lookup h' r = Some (ResultObj e)"
  using assms
  by (auto simp: OkImpl_mapErr_ref_def OkImpl_orElse_ref_def this_val_lookup
      Ok_ref_def Ok_def dest: lookup_new_fresh)

lemma RightImpl_refs_agree:
  assumes "lookup h this = Some (EitherObj (RightImpl y))"
  shows "RightImpl_mapLeft_ref this fn h = Some (r, h') \<Longrightarrow> Either_mapLeft (RightImpl y) f = Inr e \<Longrightarrow>
           lookup h' r = Some (EitherObj e)"
    and "RightImpl_leftAndThen_ref this fn h = Some (r, h') \<Longrightarrow>
           Either_leftAndThen (RightImpl y) g = Inr e \<Longrightarrow> lookup h' r = Some (EitherObj e)"
  using assms
  by (auto simp: RightImpl_mapLeft_ref_def RightImpl_leftAndThen_ref_def this_val_lookup
      Right_ref_def Right_either_def dest: lookup_new_fresh)

lemma ErrImpl_refs_agree:
  assumes "lookup h this = Some (ResultObj (ErrImpl v))"
  shows "ErrImpl_map_ref this fn h = Some (r, h') \<Longrightarrow> Result_map (ErrImpl v) f = Inr e \<Longrightarrow>
           lookup h' r = Some (ResultObj e)"
    and "ErrImpl_andThen_ref this fn h = Some (r, h') \<Longrightarrow>
           Result_andThen (ErrImpl v) g = Inr e \<Longrightarrow> lookup h' r = Some (ResultObj e)"
  using assms
  by (auto simp: ErrImpl_map_ref_def ErrImpl_andThen_ref_def this_val_lookup
      Err_ref_def Err_def dest: lookup_new_fresh)

lemma projection_refs_agree:
  assumes "lookup h None_ref = Some (OptionObj NoneImpl)"
  shows "lookup (snd (LeftImpl_right_ref this h)) (fst (LeftImpl_right_ref this h))
           = Some (OptionObj (Either_right (LeftImpl x)))"
    and "lookup (snd (RightImpl_left_ref this h)) (fst (RightImpl_left_ref this h))
           = Some (OptionObj (Either_left (RightImpl x)))"
    and "lookup (snd (OkImpl_err_ref this h)) (fst (OkImpl_err_ref this h))
           = Some (OptionObj (Result_err (OkImpl x)))"
    and "lookup (snd (ErrImpl_ok_ref this h)) (fst (ErrImpl_ok_ref this h))
           = Some (OptionObj (Result_ok (ErrImpl x)))"
  using assms
  by (simp_all add: LeftImpl_right_ref_def RightImpl_left_ref_def OkImpl_err_ref_def
      ErrImpl_ok_ref_def None_opt_def)

section \<open>Failing unwraps\<close>

text \<open>
  C1, as stated: for every message string \<open>msg\<close> passed by the caller, \<open>None.unwrap(msg)\<close>,
  \<open>Err(e).unwrap(msg)\<close> and \<open>Ok(v).unwrapErr(msg)\<close> throw a generic error carrying
  exactly \<open>msg\<close>. The empty string is a message string, and it is falsy: with it the
  three methods throw the reference error with the fixed message instead.
\<close>

theorem unwrap_empty_message_counterexample:
  "Option_unwrap (None_opt :: unit Option) (Some []) \<noteq> Inl (Error [])
   \<and> Option_unwrap (None_opt :: unit Option) (Some []) = Inl (ReferenceError ''Trying to unwrap None.'')
   \<and> Result_unwrap (Err () :: (unit, unit) Result) (Some []) = Inl (ReferenceError ''Cannot unwrap Ok value of Result.Err'')
   \<and> Result_unwrapErr (Ok () :: (unit, unit) Result) (Some []) = Inl (ReferenceError ''Cannot unwrap Err value of Result.Ok'')"
  by (simp add: None_opt_def Ok_def Err_def)

text \<open>
  C1, amended: for every non-empty message string \<open>msg\<close> passed by the caller,
  \<open>None.unwrap(msg)\<close>, \<open>Err(e).unwrap(msg)\<close> and \<open>Ok(v).unwrapErr(msg)\<close> throw a generic
  error carrying exactly \<open>msg\<close>, in place of the reference error.
\<close>

theorem unwrap_custom_message:
  assumes "msg \<noteq> []"
  shows "Option_unwrap None_opt (Some msg) = Inl (Error msg)
       \<and> Result_unwrap (Err e) (Some msg) = Inl (Error msg)
       \<and> Result_unwrapErr (Ok v) (Some msg) = Inl (Error msg)"
  using assms by (simp add: None_opt_def Ok_def Err_def)

theorem unwrap_custom_message_witness:
  "Option_unwrap (None_opt :: nat Option) (Some ''custom'') = Inl (Error ''custom'')
   \<and> Result_unwrap (Err (1::nat) :: (nat, nat) Result) (Some ''custom'') = Inl (Error ''custom'')
   \<and> Result_unwrapErr (Ok (2::nat) :: (nat, nat) Result) (Some ''custom'') = Inl (Error ''custom'')"
proof -
  have nonempty: "''custom'' \<noteq> []" by simp
  show ?thesis
    by (rule unwrap_custom_message [OF nonempty])
qed

text \<open>
  C2: with no message, an unwrap on the wrong side throws a reference error with a fixed
  message, and an unwrap on the own side returns the payload: \<open>None.unwrap()\<close> throws
  "Trying to unwrap None." and \<open>Some(v).unwrap()\<close> returns \<open>v\<close>; \<open>Left(x).unwrapRight()\<close>
  throws "Cannot unwrap Right value of Either.Left" and \<open>Left(x).unwrapLeft()\<close> returns
  \<open>x\<close>; \<open>Right(y).unwrapLeft()\<close> throws "Cannot unwrap Left value of Either.Right" and
  \<open>Right(y).unwrapRight()\<close> returns \<open>y\<close>; \<open>Err(e).unwrap()\<close> throws "Cannot unwrap Ok value
  of Result.Err" and \<open>Err(e).unwrapErr()\<close> returns \<open>e\<close>; \<open>Ok(v).unwrapErr()\<close> throws
  "Cannot unwrap Err value of Result.Ok" and \<open>Ok(v).unwrap()\<close> returns \<open>v\<close>.
\<close>

theorem unwrap_default_errors:
  "Option_unwrap None_opt None = Inl (ReferenceError ''Trying to unwrap None.'')
   \<and> Option_unwrap (Some_opt v) None = Inr v
   \<and> Either_unwrapRight (Left_either x) = Inl (ReferenceError ''Cannot unwrap Right value of Either.Left'')
   \<and> Either_unwrapLeft (Left_either x) = Inr x
   \<and> Either_unwrapLeft (Right_either y) = Inl (ReferenceError ''Cannot unwrap Left value of Either.Right'')
   \<and> Either_unwrapRight (Right_either y) = Inr y
   \<and> Result_unwrap (Err e) None = Inl (ReferenceError ''Cannot unwrap Ok value of Result.Err'')
   \<and> Result_unwrapErr (Err e) None = Inr e
   \<and> Result_unwrapErr (Ok w) None = Inl (ReferenceError ''Cannot unwrap Err value of Result.Ok'')
   \<and> Result_unwrap (Ok w) None = Inr w"
  by (simp add: None_opt_def Some_opt_def Left_either_def Right_either_def Ok_def Err_def)

section \<open>Matching and unwrapping\<close>

text \<open>
  C3: for every value \<open>v\<close> and every match object, \<open>Some(v).match({some, none})\<close> calls
  \<open>some(v)\<close> and returns its result; \<open>None.match({some, none})\<close> calls \<open>none\<close> and returns
  its result when \<open>none\<close> is callable, and returns \<open>none\<close> itself otherwise.
\<close>

theorem match_dispatch:
  "Option_match (Some_opt v) \<lparr>some = s, none = n\<rparr> = s v
   \<and> Option_match None_opt \<lparr>some = s, none = Callable f\<rparr> = f ()
   \<and> Option_match None_opt \<lparr>some = s, none = Literal d\<rparr> = Inr d"
  by (simp add: Some_opt_def None_opt_def)

text \<open>
  C4: \<open>Either.unwrap()\<close> returns the payload of the side that is held: \<open>Left(x).unwrap()\<close>
  returns \<open>x\<close> and \<open>Right(y).unwrap()\<close> returns \<open>y\<close>; neither fails.
\<close>

theorem either_unwrap_current_side:
  "Either_unwrap (Left_either x) = x \<and> Either_unwrap (Right_either y) = y"
  by (simp add: Left_either_def Right_either_def)

section \<open>Chaining\<close>



text \<open>
  C6: the identity law of Option: for every Option \<open>opt\<close>, of either variant,
  \<open>opt.andThen(x => Some(x))\<close> has the variant and the payload of \<open>opt\<close>.
\<close>

theorem option_andThen_Some_identity:
  "Option_andThen opt (\<lambda>x. Inr (Some_opt x)) = Inr opt
   \<and> Option_andThen (Some_opt v) (\<lambda>x. Inr (Some_opt x)) = Inr (Some_opt v)
   \<and> Option_andThen None_opt (\<lambda>x. Inr (Some_opt x)) = Inr (None_opt :: 'a Option)"
proof -
  have "Option_andThen opt (\<lambda>x. Inr (Some_opt x)) = Inr opt"
    by (cases opt) (simp_all add: Some_opt_def)
  then show ?thesis
    by (simp add: Some_opt_def None_opt_def)
qed

section \<open>Projections into Option\<close>

text \<open>
  C7: \<open>Left(x).left()\<close> is \<open>Some(x)\<close>, so \<open>Left(x).left().unwrap()\<close> is \<open>x\<close>, and
  \<open>Left(x).right()\<close> is \<open>None\<close>; \<open>Right(y).right()\<close> is \<open>Some(y)\<close> and \<open>Right(y).left()\<close> is
  \<open>None\<close>; \<open>Ok(v).ok()\<close> is \<open>Some(v)\<close> and \<open>Ok(v).err()\<close> is \<open>None\<close>; \<open>Err(e).err()\<close> is
  \<open>Some(e)\<close> and \<open>Err(e).ok()\<close> is \<open>None\<close>.
\<close>

theorem projections_into_option:
  "Either_left (Left_either x) = Some_opt x
   \<and> Option_unwrap (Either_left (Left_either x)) None = Inr x
   \<and> Either_right (Left_either x) = None_opt
   \<and> Option_isNone (Either_right (Left_either x))
   \<and> Either_right (Right_either y) = Some_opt y
   \<and> Option_unwrap (Either_right (Right_either y)) None = Inr y
   \<and> Either_left (Right_either y) = None_opt
   \<and> Option_isNone (Either_left (Right_either y))
   \<and> Result_ok (Ok v) = Some_opt v
   \<and> Result_err (Ok v) = None_opt
   \<and> Result_err (Err e) = Some_opt e
   \<and> Result_ok (Err e) = None_opt"
  by (simp add: Left_either_def Right_either_def Ok_def Err_def Some_opt_def None_opt_def)

text \<open>
  C8: \<open>OptionExt.ofUndefinable(value)\<close> is \<open>None\<close> exactly when \<open>value\<close> is \<open>undefined\<close>,
  and \<open>Some(value)\<close> for every other value; \<open>ofUndefinable(null)\<close> is \<open>Some(null)\<close>.
\<close>

theorem ofUndefinable_only_undefined:
  "(ofUndefinable (value :: 'a js_value) = None_opt \<longleftrightarrow> value = Undefined)
   \<and> (value \<noteq> Undefined \<longrightarrow> ofUndefinable value = Some_opt value)
   \<and> ofUndefinable (Null :: 'a js_value) = Some_opt Null"
  by (simp add: ofUndefinable_def None_opt_def Some_opt_def)

theorem ofUndefinable_only_undefined_witness:
  "ofUndefinable (Val ''x'') \<noteq> None_opt
   \<and> Val ''x'' \<noteq> Undefined
   \<and> ofUndefinable (Val ''x'') = Some_opt (Val ''x'')
   \<and> ofUndefinable (Undefined :: string js_value) = None_opt
   \<and> ofUndefinable (Null :: string js_value) = Some_opt Null"
  using ofUndefinable_only_undefined [of "Val ''x''"]
    ofUndefinable_only_undefined [of "Undefined :: string js_value"]
  by (simp add: Some_opt_def None_opt_def)

section \<open>Operations that cannot fail\<close>

text \<open>
  A method whose body has no \<^verbatim>\<open>throw\<close> and calls nothing supplied by the caller has a
  plain result type above. A method that calls a callback has the result type
  \<open>js_error + 'a\<close>, and throws exactly when the callback it calls does.
\<close>

lemma wrap_returns:
  "\<not> throws c \<Longrightarrow> \<not> throws (case c of Inl e \<Rightarrow> Inl e | Inr u \<Rightarrow> Inr (f u))"
  by (cases c) simp_all

lemma Option_callbacks_return:
  assumes "\<forall>x. \<not> throws (some om x)"
    and "\<forall>f u. none om = Callable f \<longrightarrow> \<not> throws (f u)"
    and "\<forall>x. \<not> throws (omap x)"
    and "\<forall>x. \<not> throws (obind x)"
  shows "\<not> throws (Option_match opt om) \<and> \<not> throws (Option_map opt omap)
       \<and> \<not> throws (Option_andThen opt obind)"
  using assms by (cases opt) (auto simp: wrap_returns split: none_arm.splits)

lemma Either_callbacks_return:
  assumes "\<forall>x. \<not> throws (left em x)"
    and "\<forall>x. \<not> throws (right em x)"
    and "\<forall>x. \<not> throws (eml x)"
    and "\<forall>x. \<not> throws (emr x)"
    and "\<forall>x. \<not> throws (elb x)"
    and "\<forall>x. \<not> throws (erb x)"
  shows "\<not> throws (Either_match ei em) \<and> \<not> throws (Either_mapLeft ei eml)
       \<and> \<not> throws (Either_mapRight ei emr) \<and> \<not> throws (Either_leftAndThen ei elb)
       \<and> \<not> throws (Either_rightAndThen ei erb)"
  using assms by (cases ei) (simp_all add: wrap_returns)

lemma Result_callbacks_return:
  assumes "\<forall>x. \<not> throws (ok rm x)"
    and "\<forall>x. \<not> throws (err rm x)"
    and "\<forall>x. \<not> throws (rmap x)"
    and "\<forall>x. \<not> throws (rmapErr x)"
    and "\<forall>x. \<not> throws (rbind x)"
    and "\<forall>x. \<not> throws (relse x)"
  shows "\<not> throws (Result_match res rm) \<and> \<not> throws (Result_map res rmap)
       \<and> \<not> throws (Result_mapErr res rmapErr) \<and> \<not> throws (Result_andThen res rbind)
       \<and> \<not> throws (Result_orElse res relse)"
  using assms by (cases res) (simp_all add: wrap_returns)


text \<open>
  C9: every public operation outside the unwrap family returns normally on every
  well-typed input, provided the callbacks it is given do not throw. For the methods that
  call a callback (\<open>match\<close>, \<open>map\<close>, \<open>mapLeft\<close>, \<open>mapRight\<close>, \<open>mapErr\<close>, \<open>andThen\<close>,
  \<open>leftAndThen\<close>, \<open>rightAndThen\<close>, \<open>orElse\<close>) the result is not a thrown error, on
  every receiver. The constructors, the predicates and their free-function forms,
  \<open>or\<close>, \<open>and\<close>, \<open>unwrapOr\<close>, \<open>unwrapLeftOr\<close>, \<open>unwrapRightOr\<close>, \<open>left\<close>, \<open>right\<close>,
  \<open>ok\<close>, \<open>err\<close> and \<open>ofUndefinable\<close> return the value shown for each variant.
\<close>

theorem operations_never_throw:
  fixes opt optb :: "'a Option" and v d :: 'a
    and ei :: "('l, 'r) Either" and x x' :: 'l and y y' :: 'r
    and res :: "('t, 'e) Result" and t t' :: 't and e :: 'e
  assumes "\<forall>x. \<not> throws (some om x)"
    and "\<forall>f u. none om = Callable f \<longrightarrow> \<not> throws (f u)"
    and "\<forall>x. \<not> throws (omap x)"
    and "\<forall>x. \<not> throws (obind x)"
    and "\<forall>x. \<not> throws (left em x)"
    and "\<forall>x. \<not> throws (right em x)"
    and "\<forall>x. \<not> throws (eml x)"
    and "\<forall>x. \<not> throws (emr x)"
    and "\<forall>x. \<not> throws (elb x)"
    and "\<forall>x. \<not> throws (erb x)"
    and "\<forall>x. \<not> throws (ok rm x)"
    and "\<forall>x. \<not> throws (err rm x)"
    and "\<forall>x. \<not> throws (rmap x)"
    and "\<forall>x. \<not> throws (rmapErr x)"
    and "\<forall>x. \<not> throws (rbind x)"
    and "\<forall>x. \<not> throws (relse x)"
  shows "(\<not> throws (Option_match opt om) \<and> \<not> throws (Option_map opt omap)
          \<and> \<not> throws (Option_andThen opt obind))
       \<and> (\<not> throws (Either_match ei em) \<and> \<not> throws (Either_mapLeft ei eml)
          \<and> \<not> throws (Either_mapRight ei emr) \<and> \<not> throws (Either_leftAndThen ei elb)
          \<and> \<not> throws (Either_rightAndThen ei erb))
       \<and> (\<not> throws (Result_match res rm) \<and> \<not> throws (Result_map res rmap)
          \<and> \<not> throws (Result_mapErr res rmapErr) \<and> \<not> throws (Result_andThen res rbind)
          \<and> \<not> throws (Result_orElse res relse))
       \<and> (Some_opt v = SomeImpl v \<and> (None_opt :: 'a Option) = NoneImpl
          \<and> Option_isSome (Some_opt v) \<and> \<not> Option_isSome (None_opt :: 'a Option)
          \<and> \<not> Option_isNone (Some_opt v) \<and> Option_isNone (None_opt :: 'a Option)
          \<and> Option_or (Some_opt v) optb = Some_opt v \<and> Option_or None_opt optb = optb
          \<and> Option_and (Some_opt v) optb = optb \<and> Option_and None_opt optb = None_opt
          \<and> Option_unwrapOr (Some_opt v) d = v \<and> Option_unwrapOr None_opt d = d
          \<and> ofUndefinable Undefined = (None_opt :: 'a js_value Option)
          \<and> ofUndefinable Null = Some_opt (Null :: 'a js_value)
          \<and> ofUndefinable (Val v) = Some_opt (Val v)
          \<and> isSome opt = Option_isSome opt \<and> isNone opt = Option_isNone opt)
       \<and> (Left_either x = LeftImpl x \<and> Right_either y = RightImpl y
          \<and> Either_isLeft (Left_either x) \<and> \<not> Either_isLeft (Right_either y)
          \<and> \<not> Either_isRight (Left_either x) \<and> Either_isRight (Right_either y)
          \<and> Either_left (Left_either x) = Some_opt x \<and> Either_left (Right_either y) = None_opt
          \<and> Either_right (Left_either x) = None_opt \<and> Either_right (Right_either y) = Some_opt y
          \<and> Either_unwrapLeftOr (Left_either x) x' = x \<and> Either_unwrapLeftOr (Right_either y) x' = x'
          \<and> Either_unwrapRightOr (Left_either x) y' = y' \<and> Either_unwrapRightOr (Right_either y) y' = y
          \<and> isLeft ei = Either_isLeft ei \<and> isRight ei = Either_isRight ei)
       \<and> (Ok t = OkImpl t \<and> Err e = ErrImpl e
          \<and> Result_isOk (Ok t) \<and> \<not> Result_isOk (Err e)
          \<and> \<not> Result_isErr (Ok t) \<and> Result_isErr (Err e)
          \<and> Result_ok (Ok t) = Some_opt t \<and> Result_ok (Err e) = None_opt
          \<and> Result_err (Ok t) = None_opt \<and> Result_err (Err e) = Some_opt e
          \<and> Result_unwrapOr (Ok t) t' = t \<and> Result_unwrapOr (Err e) t' = t'
          \<and> isOk res = Result_isOk res \<and> isErr res = Result_isErr res)"
proof -
  have option_calls: "\<not> throws (Option_match opt om) \<and> \<not> throws (Option_map opt omap)
          \<and> \<not> throws (Option_andThen opt obind)"
    using assms(1-4) by (rule Option_callbacks_return)
  have either_calls: "\<not> throws (Either_match ei em) \<and> \<not> throws (Either_mapLeft ei eml)
          \<and> \<not> throws (Either_mapRight ei emr) \<and> \<not> throws (Either_leftAndThen ei elb)
          \<and> \<not> throws (Either_rightAndThen ei erb)"
    using assms(5-10) by (rule Either_callbacks_return)
  have result_calls: "\<not> throws (Result_match res rm) \<and> \<not> throws (Result_map res rmap)
          \<and> \<not> throws (Result_mapErr res rmapErr) \<and> \<not> throws (Result_andThen res rbind)
          \<and> \<not> throws (Result_orElse res relse)"
    using assms(11-16) by (rule Result_callbacks_return)
  have option_plain: "Some_opt v = SomeImpl v \<and> (None_opt :: 'a Option) = NoneImpl
          \<and> Option_isSome (Some_opt v) \<and> \<not> Option_isSome (None_opt :: 'a Option)
          \<and> \<not> Option_isNone (Some_opt v) \<and> Option_isNone (None_opt :: 'a Option)
          \<and> Option_or (Some_opt v) optb = Some_opt v \<and> Option_or None_opt optb = optb
          \<and> Option_and (Some_opt v) optb = optb \<and> Option_and None_opt optb = None_opt
          \<and> Option_unwrapOr (Some_opt v) d = v \<and> Option_unwrapOr None_opt d = d
          \<and> ofUndefinable Undefined = (None_opt :: 'a js_value Option)
          \<and> ofUndefinable Null = Some_opt (Null :: 'a js_value)
          \<and> ofUndefinable (Val v) = Some_opt (Val v)
          \<and> isSome opt = Option_isSome opt \<and> isNone opt = Option_isNone opt"
    by (simp add: Some_opt_def None_opt_def ofUndefinable_def isSome_def isNone_def)
  have either_plain: "Left_either x = LeftImpl x \<and> Right_either y = RightImpl y
          \<and> Either_isLeft (Left_either x) \<and> \<not> Either_isLeft (Right_either y)
          \<and> \<not> Either_isRight (Left_either x) \<and> Either_isRight (Right_either y)
          \<and> Either_left (Left_either x) = Some_opt x \<and> Either_left (Right_either y) = None_opt
          \<and> Either_right (Left_either x) = None_opt \<and> Either_right (Right_either y) = Some_opt y
          \<and> Either_unwrapLeftOr (Left_either x) x' = x \<and> Either_unwrapLeftOr (Right_either y) x' = x'
          \<and> Either_unwrapRightOr (Left_either x) y' = y' \<and> Either_unwrapRightOr (Right_either y) y' = y
          \<and> isLeft ei = Either_isLeft ei \<and> isRight ei = Either_isRight ei"
    by (simp add: Left_either_def Right_either_def isLeft_def isRight_def)
  have result_plain: "Ok t = OkImpl t \<and> Err e = ErrImpl e
          \<and> Result_isOk (Ok t) \<and> \<not> Result_isOk (Err e)
          \<and> \<not> Result_isErr (Ok t) \<and> Result_isErr (Err e)
          \<and> Result_ok (Ok t) = Some_opt t \<and> Result_ok (Err e) = None_opt
          \<and> Result_err (Ok t) = None_opt \<and> Result_err (Err e) = Some_opt e
          \<and> Result_unwrapOr (Ok t) t' = t \<and> Result_unwrapOr (Err e) t' = t'
          \<and> isOk res = Result_isOk res \<and> isErr res = Result_isErr res"
    by (simp add: Ok_def Err_def isOk_def isErr_def)
  from option_calls either_calls result_calls option_plain either_plain result_plain
  show ?thesis by blast
qed


theorem operations_never_throw_witness:
  "\<not> throws (Option_match (Some_opt (1::nat)) \<lparr>some = \<lambda>x. Inr (x + 1), none = Callable (\<lambda>u. Inr (0::nat))\<rparr>)
   \<and> \<not> throws (Option_map (Some_opt (1::nat)) (\<lambda>x. Inr (x + 1)))
   \<and> \<not> throws (Option_andThen (Some_opt (1::nat)) (\<lambda>x. Inr (Some_opt (x + 1))))
   \<and> \<not> throws (Either_match (Left_either (1::nat) :: (nat, nat) Either) \<lparr>left = \<lambda>x. Inr (x + 1), right = \<lambda>x. Inr x\<rparr>)
   \<and> \<not> throws (Either_mapLeft (Left_either (1::nat) :: (nat, nat) Either) (\<lambda>x. Inr (x + 1)))
   \<and> \<not> throws (Either_mapRight (Left_either (1::nat) :: (nat, nat) Either) (\<lambda>x. Inr (x + 1)))
   \<and> \<not> throws (Either_leftAndThen (Left_either (1::nat) :: (nat, nat) Either) (\<lambda>x. Inr (Right_either x :: (nat, nat) Either)))
   \<and> \<not> throws (Either_rightAndThen (Left_either (1::nat) :: (nat, nat) Either) (\<lambda>x. Inr (Left_either x :: (nat, nat) Either)))
   \<and> \<not> throws (Result_match (Ok (1::nat) :: (nat, nat) Result) \<lparr>ok = \<lambda>x. Inr (x + 1), err = \<lambda>x. Inr x\<rparr>)
   \<and> \<not> throws (Result_map (Ok (1::nat) :: (nat, nat) Result) (\<lambda>x. Inr (x + 1)))
   \<and> \<not> throws (Result_mapErr (Ok (1::nat) :: (nat, nat) Result) (\<lambda>x. Inr (x + 1)))
   \<and> \<not> throws (Result_andThen (Ok (1::nat) :: (nat, nat) Result) (\<lambda>x. Inr (Err x :: (nat, nat) Result)))
   \<and> \<not> throws (Result_orElse (Ok (1::nat) :: (nat, nat) Result) (\<lambda>x. Inr (Ok x :: (nat, nat) Result)))"
proof -
  let ?om = "\<lparr>some = \<lambda>x::nat. (Inr (x + 1) :: js_error + nat), none = Callable (\<lambda>u. Inr (0::nat))\<rparr>"
  let ?em = "\<lparr>left = \<lambda>x::nat. (Inr (x + 1) :: js_error + nat), right = \<lambda>x::nat. Inr x\<rparr>"
  let ?rm = "\<lparr>ok = \<lambda>x::nat. (Inr (x + 1) :: js_error + nat), err = \<lambda>x::nat. Inr x\<rparr>"
  have c1: "\<forall>x. \<not> throws (some ?om x)" by simp
  have c2: "\<forall>f u. none ?om = Callable f \<longrightarrow> \<not> throws (f u)" by auto
  have c3: "\<forall>x::nat. \<not> throws (Inr (x + 1) :: js_error + nat)" by simp
  have c4: "\<forall>x::nat. \<not> throws (Inr (Some_opt (x + 1)) :: js_error + nat Option)" by simp
  have c5: "\<forall>x. \<not> throws (left ?em x)" by simp
  have c6: "\<forall>x. \<not> throws (right ?em x)" by simp
  have c9: "\<forall>x::nat. \<not> throws (Inr (Right_either x) :: js_error + (nat, nat) Either)" by simp
  have c10: "\<forall>x::nat. \<not> throws (Inr (Left_either x) :: js_error + (nat, nat) Either)" by simp
  have c11: "\<forall>x. \<not> throws (ok ?rm x)" by simp
  have c12: "\<forall>x. \<not> throws (err ?rm x)" by simp
  have c15: "\<forall>x::nat. \<not> throws (Inr (Err x) :: js_error + (nat, nat) Result)" by simp
  have c16: "\<forall>x::nat. \<not> throws (Inr (Ok x) :: js_error + (nat, nat) Result)" by simp
  note inst = operations_never_throw [where om = ?om and omap = "\<lambda>x::nat. (Inr (x + 1) :: js_error + nat)"
      and obind = "\<lambda>x::nat. (Inr (Some_opt (x + 1)) :: js_error + nat Option)"
      and em = ?em and eml = "\<lambda>x::nat. (Inr (x + 1) :: js_error + nat)"
      and emr = "\<lambda>x::nat. (Inr (x + 1) :: js_error + nat)"
      and elb = "\<lambda>x::nat. (Inr (Right_either x) :: js_error + (nat, nat) Either)"
      and erb = "\<lambda>x::nat. (Inr (Left_either x) :: js_error + (nat, nat) Either)"
      and rm = ?rm and rmap = "\<lambda>x::nat. (Inr (x + 1) :: js_error + nat)"
      and rmapErr = "\<lambda>x::nat. (Inr (x + 1) :: js_error + nat)"
      and rbind = "\<lambda>x::nat. (Inr (Err x) :: js_error + (nat, nat) Result)"
      and relse = "\<lambda>x::nat. (Inr (Ok x) :: js_error + (nat, nat) Result)"
      and opt = "Some_opt 1" and ei = "Left_either 1" and res = "Ok 1"
      and v = 1 and optb = None_opt and d = 0 and x = 1 and y = 2 and x' = 3 and y' = 4
      and t = 1 and e = 2 and t' = 3]
  from inst [OF c1 c2 c3 c4 c5 c6 c3 c3 c9 c10 c11 c12 c3 c3 c15 c16]
  show ?thesis by blast
qed

section \<open>Fresh instances, the shared None and the receiver\<close>

text \<open>
  C10, as stated: a result described as "None" or as the receiver "unchanged" has the
  content described but is not the same object by reference. The methods the claim lists
  do behave so, but not every result described as "None" does: \<open>Left(x).right()\<close>,
  described as \<open>None\<close>, is \<^verbatim>\<open>return None;\<close> and so is the shared \<open>None\<close> object itself;
  it allocates nothing.
\<close>

theorem projection_returns_shared_None_counterexample:
  "fst (LeftImpl_right_ref 1 [OptionObj NoneImpl, EitherObj (LeftImpl (1::nat))]) = None_ref
   \<and> lookup [OptionObj NoneImpl, EitherObj (LeftImpl (1::nat))] 1 = Some (EitherObj (LeftImpl 1))
   \<and> lookup [OptionObj NoneImpl, EitherObj (LeftImpl (1::nat))] None_ref = Some (OptionObj NoneImpl)
   \<and> snd (LeftImpl_right_ref 1 [OptionObj NoneImpl, EitherObj (LeftImpl (1::nat))])
       = [OptionObj NoneImpl, EitherObj (LeftImpl 1)]
   \<and> Either_right (Left_either (1::nat) :: (nat, nat) Either) = None_opt"
  by (simp add: LeftImpl_right_ref_def lookup_def None_ref_def Left_either_def)

text \<open>
  C10, amended: the results described as "None" or "unchanged" of the mapping, chaining
  and \<open>and\<close> methods have the content described but are new objects. In a heap where
  the module is loaded, \<open>None.map(fn)\<close>, \<open>None.andThen(fn)\<close> and \<open>None.and(optb)\<close> return
  a newly allocated \<open>NoneImpl\<close>, which is neither the shared \<open>None\<close> nor the receiver;
  \<open>Left(x).mapRight(fn)\<close> and \<open>Left(x).rightAndThen(fn)\<close> return a newly allocated Left
  holding \<open>x\<close>, not the receiver, and \<open>Right(y).mapLeft(fn)\<close> and
  \<open>Right(y).leftAndThen(fn)\<close> a newly allocated Right holding \<open>y\<close>;
  \<open>Ok(v).mapErr(fn)\<close> and \<open>Ok(v).orElse(fn)\<close> return a newly allocated Ok holding \<open>v\<close>,
  not the receiver, and \<open>Err(e).map(fn)\<close> and \<open>Err(e).andThen(fn)\<close> a newly allocated Err
  holding \<open>e\<close>. The results described as "None" of the projections \<open>Left(x).right()\<close>,
  \<open>Right(y).left()\<close>, \<open>Ok(v).err()\<close> and \<open>Err(e).ok()\<close>, and of
  \<open>ofUndefinable(undefined)\<close>, are the shared \<open>None\<close> itself. \<open>Some(v).or(optb)\<close> returns
  the receiver itself. Each part needs only its own receiver to be in the heap.
\<close>

theorem unchanged_results_are_new_instances:
  "(lookup h None_ref = Some (OptionObj NoneImpl) \<longrightarrow> lookup h n = Some (OptionObj NoneImpl) \<longrightarrow>
      (\<exists>r h'. NoneImpl_map_ref n fn h = (r, h') \<and> r \<noteq> None_ref \<and> r \<noteq> n
         \<and> lookup h r = None \<and> lookup h' r = Some (OptionObj NoneImpl))
    \<and> (\<exists>r h'. NoneImpl_andThen_ref n fn h = (r, h') \<and> r \<noteq> None_ref \<and> r \<noteq> n
         \<and> lookup h r = None \<and> lookup h' r = Some (OptionObj NoneImpl))
    \<and> (\<exists>r h'. NoneImpl_and_ref n optb h = (r, h') \<and> r \<noteq> None_ref \<and> r \<noteq> n
         \<and> lookup h r = None \<and> lookup h' r = Some (OptionObj NoneImpl)))
   \<and> (lookup h l = Some (EitherObj (LeftImpl x)) \<longrightarrow>
      (\<exists>r h'. LeftImpl_mapRight_ref l fn h = Some (r, h') \<and> r \<noteq> l
         \<and> lookup h r = None \<and> lookup h' r = Some (EitherObj (LeftImpl x)))
    \<and> (\<exists>r h'. LeftImpl_rightAndThen_ref l fn h = Some (r, h') \<and> r \<noteq> l
         \<and> lookup h r = None \<and> lookup h' r = Some (EitherObj (LeftImpl x))))
   \<and> (lookup h m = Some (EitherObj (RightImpl y)) \<longrightarrow>
      (\<exists>r h'. RightImpl_mapLeft_ref m fn h = Some (r, h') \<and> r \<noteq> m
         \<and> lookup h r = None \<and> lookup h' r = Some (EitherObj (RightImpl y)))
    \<and> (\<exists>r h'. RightImpl_leftAndThen_ref m fn h = Some (r, h') \<and> r \<noteq> m
         \<and> lookup h r = None \<and> lookup h' r = Some (EitherObj (RightImpl y))))
   \<and> (lookup h k = Some (ResultObj (OkImpl v)) \<longrightarrow>
      (\<exists>r h'. OkImpl_mapErr_ref k fn h = Some (r, h') \<and> r \<noteq> k
         \<and> lookup h r = None \<and> lookup h' r = Some (ResultObj (OkImpl v)))
    \<and> (\<exists>r h'. OkImpl_orElse_ref k fn h = Some (r, h') \<and> r \<noteq> k
         \<and> lookup h r = None \<and> lookup h' r = Some (ResultObj (OkImpl v))))
   \<and> (lookup h q = Some (ResultObj (ErrImpl e)) \<longrightarrow>
      (\<exists>r h'. ErrImpl_map_ref q fn h = Some (r, h') \<and> r \<noteq> q
         \<and> lookup h r = None \<and> lookup h' r = Some (ResultObj (ErrImpl e)))
    \<and> (\<exists>r h'. ErrImpl_andThen_ref q fn h = Some (r, h') \<and> r \<noteq> q
         \<and> lookup h r = None \<and> lookup h' r = Some (ResultObj (ErrImpl e))))
   \<and> LeftImpl_right_ref l h = (None_ref, h)
   \<and> RightImpl_left_ref m h = (None_ref, h)
   \<and> OkImpl_err_ref k h = (None_ref, h)
   \<and> ErrImpl_ok_ref q h = (None_ref, h)
   \<and> ofUndefinable_ref Undefined hv = (None_ref, hv)
   \<and> SomeImpl_or_ref s optb h = (s, h)"
proof -
  have none: "\<exists>r h'. new (OptionObj NoneImpl) h = (r, h') \<and> r \<noteq> None_ref \<and> r \<noteq> n
            \<and> lookup h r = None \<and> lookup h' r = Some (OptionObj NoneImpl)"
    if "lookup h None_ref = Some (OptionObj NoneImpl)" and "lookup h n = Some (OptionObj NoneImpl)"
    using new_fresh_instance [OF that(1)] new_fresh_instance [OF that(2)]
    by (metis prod.inject)
  have left: "\<exists>r h'. Left_ref x h = (r, h') \<and> r \<noteq> l
            \<and> lookup h r = None \<and> lookup h' r = Some (EitherObj (LeftImpl x))"
    if "lookup h l = Some (EitherObj (LeftImpl x))"
    unfolding Left_ref_def by (rule new_fresh_instance [OF that])
  have right: "\<exists>r h'. Right_ref y h = (r, h') \<and> r \<noteq> m
            \<and> lookup h r = None \<and> lookup h' r = Some (EitherObj (RightImpl y))"
    if "lookup h m = Some (EitherObj (RightImpl y))"
    unfolding Right_ref_def by (rule new_fresh_instance [OF that])
  have ok: "\<exists>r h'. Ok_ref v h = (r, h') \<and> r \<noteq> k
            \<and> lookup h r = None \<and> lookup h' r = Some (ResultObj (OkImpl v))"
    if "lookup h k = Some (ResultObj (OkImpl v))"
    unfolding Ok_ref_def by (rule new_fresh_instance [OF that])
  have err: "\<exists>r h'. Err_ref e h = (r, h') \<and> r \<noteq> q
            \<and> lookup h r = None \<and> lookup h' r = Some (ResultObj (ErrImpl e))"
    if "lookup h q = Some (ResultObj (ErrImpl e))"
    unfolding Err_ref_def by (rule new_fresh_instance [OF that])
  have none_part: "lookup h None_ref = Some (OptionObj NoneImpl) \<longrightarrow> lookup h n = Some (OptionObj NoneImpl) \<longrightarrow>
      (\<exists>r h'. NoneImpl_map_ref n fn h = (r, h') \<and> r \<noteq> None_ref \<and> r \<noteq> n
         \<and> lookup h r = None \<and> lookup h' r = Some (OptionObj NoneImpl))
    \<and> (\<exists>r h'. NoneImpl_andThen_ref n fn h = (r, h') \<and> r \<noteq> None_ref \<and> r \<noteq> n
         \<and> lookup h r = None \<and> lookup h' r = Some (OptionObj NoneImpl))
    \<and> (\<exists>r h'. NoneImpl_and_ref n optb h = (r, h') \<and> r \<noteq> None_ref \<and> r \<noteq> n
         \<and> lookup h r = None \<and> lookup h' r = Some (OptionObj NoneImpl))"
    using none by (simp add: NoneImpl_map_ref_def NoneImpl_andThen_ref_def NoneImpl_and_ref_def)
  have left_part: "lookup h l = Some (EitherObj (LeftImpl x)) \<longrightarrow>
      (\<exists>r h'. LeftImpl_mapRight_ref l fn h = Some (r, h') \<and> r \<noteq> l
         \<and> lookup h r = None \<and> lookup h' r = Some (EitherObj (LeftImpl x)))
    \<and> (\<exists>r h'. LeftImpl_rightAndThen_ref l fn h = Some (r, h') \<and> r \<noteq> l
         \<and> lookup h r = None \<and> lookup h' r = Some (EitherObj (LeftImpl x)))"
    using left by (simp add: LeftImpl_mapRight_ref_def LeftImpl_rightAndThen_ref_def this_val_lookup)
  have right_part: "lookup h m = Some (EitherObj (RightImpl y)) \<longrightarrow>
      (\<exists>r h'. RightImpl_mapLeft_ref m fn h = Some (r, h') \<and> r \<noteq> m
         \<and> lookup h r = None \<and> lookup h' r = Some (EitherObj (RightImpl y)))
    \<and> (\<exists>r h'. RightImpl_leftAndThen_ref m fn h = Some (r, h') \<and> r \<noteq> m
         \<and> lookup h r = None \<and> lookup h' r = Some (EitherObj (RightImpl y)))"
    using right by (simp add: RightImpl_mapLeft_ref_def RightImpl_leftAndThen_ref_def this_val_lookup)
  have ok_part: "lookup h k = Some (ResultObj (OkImpl v)) \<longrightarrow>
      (\<exists>r h'. OkImpl_mapErr_ref k fn h = Some (r, h') \<and> r \<noteq> k
         \<and> lookup h r = None \<and> lookup h' r = Some (ResultObj (OkImpl v)))
    \<and> (\<exists>r h'. OkImpl_orElse_ref k fn h = Some (r, h') \<and> r \<noteq> k
         \<and> lookup h r = None \<and> lookup h' r = Some (ResultObj (OkImpl v)))"
    using ok by (simp add: OkImpl_mapErr_ref_def OkImpl_orElse_ref_def this_val_lookup)
  have err_part: "lookup h q = Some (ResultObj (ErrImpl e)) \<longrightarrow>
      (\<exists>r h'. ErrImpl_map_ref q fn h = Some (r, h') \<and> r \<noteq> q
         \<and> lookup h r = None \<and> lookup h' r = Some (ResultObj (ErrImpl e)))
    \<and> (\<exists>r h'. ErrImpl_andThen_ref q fn h = Some (r, h') \<and> r \<noteq> q
         \<and> lookup h r = None \<and> lookup h' r = Some (ResultObj (ErrImpl e)))"
    using err by (simp add: ErrImpl_map_ref_def ErrImpl_andThen_ref_def this_val_lookup)
  have shared: "LeftImpl_right_ref l h = (None_ref, h)
   \<and> RightImpl_left_ref m h = (None_ref, h)
   \<and> OkImpl_err_ref k h = (None_ref, h)
   \<and> ErrImpl_ok_ref q h = (None_ref, h)
   \<and> ofUndefinable_ref Undefined hv = (None_ref, hv)
   \<and> SomeImpl_or_ref s optb h = (s, h)"
    by (simp add: LeftImpl_right_ref_def RightImpl_left_ref_def OkImpl_err_ref_def
        ErrImpl_ok_ref_def ofUndefinable_ref_def SomeImpl_or_ref_def)
  from none_part left_part right_part ok_part err_part shared
  show ?thesis by (intro conjI) (erule conjunct1 | erule conjunct2 | assumption | blast)+
qed

theorem unchanged_results_are_new_instances_witness:
  "(\<exists>r h'. NoneImpl_map_ref None_ref () (module_heap :: nat heap) = (r, h') \<and> r \<noteq> None_ref
        \<and> lookup (module_heap :: nat heap) r = None \<and> lookup h' r = Some (OptionObj NoneImpl))
   \<and> (let h = [OptionObj NoneImpl, EitherObj (LeftImpl (1::nat)), EitherObj (RightImpl 2),
                ResultObj (OkImpl 3), ResultObj (ErrImpl 4), OptionObj (SomeImpl 5)]
      in (\<exists>r h'. NoneImpl_and_ref None_ref 5 h = (r, h') \<and> r \<noteq> None_ref
            \<and> lookup h r = None \<and> lookup h' r = Some (OptionObj NoneImpl))
       \<and> (\<exists>r h'. LeftImpl_mapRight_ref 1 () h = Some (r, h') \<and> r \<noteq> 1
            \<and> lookup h r = None \<and> lookup h' r = Some (EitherObj (LeftImpl 1)))
       \<and> (\<exists>r h'. RightImpl_mapLeft_ref 2 () h = Some (r, h') \<and> r \<noteq> 2
            \<and> lookup h r = None \<and> lookup h' r = Some (EitherObj (RightImpl 2)))
       \<and> (\<exists>r h'. OkImpl_orElse_ref 3 () h = Some (r, h') \<and> r \<noteq> 3
            \<and> lookup h r = None \<and> lookup h' r = Some (ResultObj (OkImpl 3)))
       \<and> (\<exists>r h'. ErrImpl_andThen_ref 4 () h = Some (r, h') \<and> r \<noteq> 4
            \<and> lookup h r = None \<and> lookup h' r = Some (ResultObj (ErrImpl 4)))
       \<and> LeftImpl_right_ref 1 h = (None_ref, h)
       \<and> SomeImpl_or_ref 5 5 h = (5, h))"
proof -
  let ?h = "[OptionObj NoneImpl, EitherObj (LeftImpl (1::nat)), EitherObj (RightImpl 2),
             ResultObj (OkImpl 3), ResultObj (ErrImpl 4), OptionObj (SomeImpl 5)]"
  have loaded: "lookup (module_heap :: nat heap) None_ref = Some (OptionObj NoneImpl)"
    by (simp add: module_heap_def new_def lookup_def None_ref_def)
  have singleton: "lookup ?h None_ref = Some (OptionObj NoneImpl)"
    by (simp add: lookup_def None_ref_def)
  have l: "lookup ?h 1 = Some (EitherObj (LeftImpl 1))"
    by (simp add: lookup_def)
  have m: "lookup ?h 2 = Some (EitherObj (RightImpl 2))"
    by (simp add: lookup_def)
  have k: "lookup ?h 3 = Some (ResultObj (OkImpl 3))"
    by (simp add: lookup_def)
  have q: "lookup ?h 4 = Some (ResultObj (ErrImpl 4))"
    by (simp add: lookup_def)
  note at_module = unchanged_results_are_new_instances
    [where h = "module_heap :: nat heap" and n = None_ref and fn = "()" and optb = None_ref
       and l = 0 and x = 0 and m = 0 and y = 0 and k = 0 and v = 0 and q = 0 and e = 0
       and s = 0 and hv = "[] :: unit js_value heap"]
  note at_heap = unchanged_results_are_new_instances
    [where h = ?h and n = None_ref and fn = "()" and optb = 5
       and l = 1 and x = 1 and m = 2 and y = 2 and k = 3 and v = 3 and q = 4 and e = 4
       and s = 5 and hv = "[] :: unit js_value heap"]
  from at_module loaded
  have first: "\<exists>r h'. NoneImpl_map_ref None_ref () (module_heap :: nat heap) = (r, h') \<and> r \<noteq> None_ref
        \<and> lookup (module_heap :: nat heap) r = None \<and> lookup h' r = Some (OptionObj NoneImpl)"
    by blast
  from at_heap singleton l m k q
  have rest: "(\<exists>r h'. NoneImpl_and_ref None_ref 5 ?h = (r, h') \<and> r \<noteq> None_ref
            \<and> lookup ?h r = None \<and> lookup h' r = Some (OptionObj NoneImpl))
       \<and> (\<exists>r h'. LeftImpl_mapRight_ref 1 () ?h = Some (r, h') \<and> r \<noteq> 1
            \<and> lookup ?h r = None \<and> lookup h' r = Some (EitherObj (LeftImpl 1)))
       \<and> (\<exists>r h'. RightImpl_mapLeft_ref 2 () ?h = Some (r, h') \<and> r \<noteq> 2
            \<and> lookup ?h r = None \<and> lookup h' r = Some (EitherObj (RightImpl 2)))
       \<and> (\<exists>r h'. OkImpl_orElse_ref 3 () ?h = Some (r, h') \<and> r \<noteq> 3
            \<and> lookup ?h r = None \<and> lookup h' r = Some (ResultObj (OkImpl 3)))
       \<and> (\<exists>r h'. ErrImpl_andThen_ref 4 () ?h = Some (r, h') \<and> r \<noteq> 4
            \<and> lookup ?h r = None \<and> lookup h' r = Some (ResultObj (ErrImpl 4)))
       \<and> LeftImpl_right_ref 1 ?h = (None_ref, ?h)
       \<and> SomeImpl_or_ref 5 5 ?h = (5, ?h)"
    by blast
  from first rest show ?thesis
    unfolding Let_def by (rule conjI)
qed

end
